theory Spec2Isabelle
  imports Main
begin

section \<open>The connection wrapper of \<open>pdc/azure_BlobStorageConnection.py\<close>\<close>

text \<open>
  The module defines one class, \<open>AzureBlobStorageConnection\<close>, with the three methods
  \<open>__init__\<close>, \<open>__enter__\<close> and \<open>__exit__\<close>. Everything else it touches is outside the
  repository: the SDK class \<open>BlobServiceClient\<close> (its constructor and its \<open>close\<close>
  method), Python's \<open>print\<close>, and the \<open>with\<close> statement that drives the two methods.

  The embedding makes every effect explicit. The outside world is a record holding an
  ordered trace of the observable events (each SDK call the wrapper makes and each line
  it prints) together with the state of the SDK, whatever it is. The SDK itself is a
  parameter: two functions that may return or raise and may change the SDK state.
  A raised exception is the left summand of the result.
\<close>

subsection \<open>Data\<close>

text \<open>
  Observable events, in the order they happen: a call of the SDK constructor with its
  two arguments, a call of \<open>close\<close> on a client, a line written by \<open>print\<close>.
\<close>

datatype ('u, 'c, 'h) event =
    SdkConstruct 'u 'c
  | SdkClose 'h
  | Print string

text \<open>
  Exceptions. \<open>AttributeError a\<close> is what the interpreter raises for the attribute
  lookup \<open>None.a\<close>; \<open>Raised e\<close> is any exception \<open>e\<close> raised by the SDK or by the body
  of a \<open>with\<close> statement.
\<close>

datatype 'e exn =
    AttributeError string
  | Raised 'e

text \<open>
  What a method hands back to the \<open>with\<close> statement: \<open>__exit__\<close> has no \<open>return\<close>, so it
  returns \<open>None\<close>; the statement tests the truth value of what it gets.
\<close>

datatype pyval = PyNone | PyBool bool

fun truthy :: "pyval \<Rightarrow> bool" where
  "truthy PyNone = False"
| "truthy (PyBool b) = b"

text \<open>The instance: the three attributes set by \<open>__init__\<close>; \<open>None\<close> is \<open>None\<close>.\<close>

record ('u, 'c, 'h) conn =
  storage_url :: 'u
  credential :: 'c
  blob_service_client :: "'h option"

record ('u, 'c, 'h, 's) world =
  trace :: "('u, 'c, 'h) event list"
  sdk_state :: 's

text \<open>
  The SDK, a parameter of the model: \<open>BlobServiceClient(url, credential=cred)\<close> returns a
  client or raises, \<open>client.close()\<close> returns or raises (\<open>Some e\<close>); both see and may
  change the SDK state.
\<close>

record ('u, 'c, 'h, 'e, 's) sdk =
  sdk_BlobServiceClient :: "'u \<Rightarrow> 'c \<Rightarrow> 's \<Rightarrow> ('e + 'h) \<times> 's"
  sdk_close :: "'h \<Rightarrow> 's \<Rightarrow> 'e option \<times> 's"

text \<open>Projections of a trace: the clients closed, the constructor calls, the lines printed.\<close>

fun close_calls :: "('u, 'c, 'h) event list \<Rightarrow> 'h list" where
  "close_calls [] = []"
| "close_calls (SdkClose h # evs) = h # close_calls evs"
| "close_calls (_ # evs) = close_calls evs"

fun construct_calls :: "('u, 'c, 'h) event list \<Rightarrow> ('u \<times> 'c) list" where
  "construct_calls [] = []"
| "construct_calls (SdkConstruct u c # evs) = (u, c) # construct_calls evs"
| "construct_calls (_ # evs) = construct_calls evs"

fun printed :: "('u, 'c, 'h) event list \<Rightarrow> string list" where
  "printed [] = []"
| "printed (Print s # evs) = s # printed evs"
| "printed (_ # evs) = printed evs"

definition emit :: "('u, 'c, 'h) event \<Rightarrow> ('u, 'c, 'h, 's) world \<Rightarrow> ('u, 'c, 'h, 's) world" where
  "emit ev w = w\<lparr>trace := trace w @ [ev]\<rparr>"

subsection \<open>The three methods\<close>

text \<open>
  \<^verbatim>\<open>
  def __init__(self, storage_url, credential):
      self.storage_url = storage_url
      self.credential = credential
      self.blob_service_client = None
  \<close>
  The world is passed through so that the absence of effects is a statement.
\<close>

definition init ::
  "'u \<Rightarrow> 'c \<Rightarrow> ('u, 'c, 'h, 's) world \<Rightarrow> ('u, 'c, 'h) conn \<times> ('u, 'c, 'h, 's) world" where
  "init url cred w =
     (\<lparr>storage_url = url, credential = cred, blob_service_client = None\<rparr>, w)"

text \<open>
  \<^verbatim>\<open>
  def __enter__(self):
      self.blob_service_client = BlobServiceClient(self.storage_url, credential=self.credential)
      print("open connection")
      return self.blob_service_client
  \<close>
  When the constructor raises, the assignment does not happen and the exception leaves
  the method. The value returned is the attribute read back, a reference that Python
  types as possibly \<open>None\<close>.
\<close>

definition enter ::
  "('u, 'c, 'h, 'e, 's) sdk \<Rightarrow> ('u, 'c, 'h) conn \<Rightarrow> ('u, 'c, 'h, 's) world \<Rightarrow>
     ('e exn + 'h option) \<times> ('u, 'c, 'h) conn \<times> ('u, 'c, 'h, 's) world" where
  "enter sdk self w =
     (let w1 = emit (SdkConstruct (storage_url self) (credential self)) w in
      case sdk_BlobServiceClient sdk (storage_url self) (credential self) (sdk_state w1) of
        (Inl e, st) \<Rightarrow> (Inl (Raised e), self, w1\<lparr>sdk_state := st\<rparr>)
      | (Inr h, st) \<Rightarrow>
          (let self1 = self\<lparr>blob_service_client := Some h\<rparr>;
               w2 = emit (Print ''open connection'') (w1\<lparr>sdk_state := st\<rparr>)
           in (Inr (blob_service_client self1), self1, w2)))"

text \<open>
  \<^verbatim>\<open>
  def __exit__(self, exc_type, exc_value, traceback):
      self.blob_service_client.close()
      print("close connection")
  \<close>
  The three exception arguments are all \<open>None\<close> or all set; they are one optional
  exception here, and the body never reads them. With the attribute \<open>None\<close> the lookup
  of \<open>close\<close> raises \<open>AttributeError\<close> before anything else happens. When \<open>close\<close>
  raises, the \<open>print\<close> after it is not reached.
\<close>

definition exit ::
  "('u, 'c, 'h, 'e, 's) sdk \<Rightarrow> ('u, 'c, 'h) conn \<Rightarrow> 'e exn option \<Rightarrow> ('u, 'c, 'h, 's) world \<Rightarrow>
     ('e exn + pyval) \<times> ('u, 'c, 'h) conn \<times> ('u, 'c, 'h, 's) world" where
  "exit sdk self exc w =
     (case blob_service_client self of
        None \<Rightarrow> (Inl (AttributeError ''close''), self, w)
      | Some h \<Rightarrow>
          (let w1 = emit (SdkClose h) w in
           case sdk_close sdk h (sdk_state w1) of
             (Some e, st) \<Rightarrow> (Inl (Raised e), self, w1\<lparr>sdk_state := st\<rparr>)
           | (None, st) \<Rightarrow>
               (Inr PyNone, self, emit (Print ''close connection'') (w1\<lparr>sdk_state := st\<rparr>))))"

subsection \<open>The \<open>with\<close> statement\<close>

text \<open>
  \<^verbatim>\<open>with self as v: body\<close> in Python: \<open>__enter__\<close> is called; when it raises, the
  statement raises and \<open>__exit__\<close> is not called. Otherwise the body runs with the value
  bound by \<open>as\<close>. When the body returns, \<open>__exit__(None, None, None)\<close> is called. When
  the body raises \<open>e\<close>, \<open>__exit__\<close> is called with \<open>e\<close>; a true result swallows \<open>e\<close>, a
  false one re-raises it, and an exception raised by \<open>__exit__\<close> itself replaces \<open>e\<close>.

  The instance is a mutable object that the body may hold a reference to: the body can
  assign its attributes or call its methods again, and \<open>__exit__\<close> runs on the object
  as the body left it, reading \<open>self.blob_service_client\<close> at that moment. So the body
  takes the bound value, the instance and the world, and returns the instance and the
  world as it leaves them. The statement yields \<open>Some r\<close> for a body that returned \<open>r\<close>
  and \<open>None\<close> when an exception was swallowed.
\<close>

definition with_stmt ::
  "('u, 'c, 'h, 'e, 's) sdk \<Rightarrow> ('u, 'c, 'h) conn \<Rightarrow>
     ('h option \<Rightarrow> ('u, 'c, 'h) conn \<Rightarrow> ('u, 'c, 'h, 's) world \<Rightarrow>
        ('e exn + 'a) \<times> ('u, 'c, 'h) conn \<times> ('u, 'c, 'h, 's) world) \<Rightarrow>
     ('u, 'c, 'h, 's) world \<Rightarrow>
     ('e exn + 'a option) \<times> ('u, 'c, 'h) conn \<times> ('u, 'c, 'h, 's) world" where
  "with_stmt sdk self body w =
     (case enter sdk self w of
        (Inl e, self1, w1) \<Rightarrow> (Inl e, self1, w1)
      | (Inr v, self1, w1) \<Rightarrow>
          (case body v self1 w1 of
             (Inr r, self2, w2) \<Rightarrow>
               (case exit sdk self2 None w2 of
                  (Inl e', self3, w3) \<Rightarrow> (Inl e', self3, w3)
                | (Inr _, self3, w3) \<Rightarrow> (Inr (Some r), self3, w3))
           | (Inl e, self2, w2) \<Rightarrow>
               (case exit sdk self2 (Some e) w2 of
                  (Inl e', self3, w3) \<Rightarrow> (Inl e', self3, w3)
                | (Inr ret, self3, w3) \<Rightarrow>
                    if truthy ret then (Inr None, self3, w3) else (Inl e, self3, w3))))"

subsection \<open>Sequences of method calls\<close>

text \<open>
  A caller may also invoke the methods directly, in any order, catching what they raise
  and doing anything to the world in between.
\<close>

datatype ('u, 'c, 'h, 'e, 's) call =
    Enter
  | Exit "'e exn option"
  | Between "('u, 'c, 'h, 's) world \<Rightarrow> ('u, 'c, 'h, 's) world"

fun step ::
  "('u, 'c, 'h, 'e, 's) sdk \<Rightarrow> ('u, 'c, 'h, 'e, 's) call \<Rightarrow>
     ('u, 'c, 'h) conn \<times> ('u, 'c, 'h, 's) world \<Rightarrow> ('u, 'c, 'h) conn \<times> ('u, 'c, 'h, 's) world" where
  "step sdk Enter (self, w) = snd (enter sdk self w)"
| "step sdk (Exit exc) (self, w) = snd (exit sdk self exc w)"
| "step sdk (Between f) (self, w) = (self, f w)"

fun run_calls ::
  "('u, 'c, 'h, 'e, 's) sdk \<Rightarrow> ('u, 'c, 'h, 'e, 's) call list \<Rightarrow>
     ('u, 'c, 'h) conn \<times> ('u, 'c, 'h, 's) world \<Rightarrow> ('u, 'c, 'h) conn \<times> ('u, 'c, 'h, 's) world" where
  "run_calls sdk [] sw = sw"
| "run_calls sdk (c # cs) sw = run_calls sdk cs (step sdk c sw)"

subsection \<open>Two SDK doubles\<close>

text \<open>
  A recording double of the SDK, as a test would inject it: the state counts the clients
  made, a new client is the next number, the only key accepted is \<open>validkey\<close>, and
  \<open>close\<close> succeeds. The second double differs in \<open>close\<close>, which raises.
\<close>

definition mock_sdk :: "(string, string, nat, string, nat) sdk" where
  "mock_sdk =
     \<lparr>sdk_BlobServiceClient =
        (\<lambda>url cred n. if cred = ''validkey'' then (Inr n, Suc n) else (Inl ''AuthenticationError'', n)),
      sdk_close = (\<lambda>h n. (None, n))\<rparr>"

definition failing_close_sdk :: "(string, string, nat, string, nat) sdk" where
  "failing_close_sdk = mock_sdk\<lparr>sdk_close := (\<lambda>h n. (Some ''OSError'', n))\<rparr>"

definition w0 :: "(string, string, nat, nat) world" where
  "w0 = \<lparr>trace = [], sdk_state = 0\<rparr>"

definition c0 :: "(string, string, nat) conn" where
  "c0 = fst (init ''https://acct.blob.example'' ''validkey'' w0)"

text \<open>
  The scenarios the closed theorems below evaluate: an instance built with a key the
  double rejects, the instance and world after \<open>__enter__\<close> and after a following
  \<open>__exit__\<close>, a body that returns and a body that raises \<open>ValueError\<close>, both
  leaving the instance alone.
\<close>

definition c_bad :: "(string, string, nat) conn" where
  "c_bad = fst (init ''https://acct.blob.example'' ''expiredkey'' w0)"

definition entered ::
  "(string, string, nat, string, nat) sdk \<Rightarrow> (string, string, nat) conn \<times> (string, string, nat, nat) world" where
  "entered sdk = snd (enter sdk c0 w0)"

definition exited ::
  "(string, string, nat, string, nat) sdk \<Rightarrow> (string, string, nat) conn \<times> (string, string, nat, nat) world" where
  "exited sdk = snd (exit sdk (fst (entered sdk)) None (snd (entered sdk)))"

definition quiet_body ::
  "nat option \<Rightarrow> (string, string, nat) conn \<Rightarrow> (string, string, nat, nat) world \<Rightarrow>
     (string exn + unit) \<times> (string, string, nat) conn \<times> (string, string, nat, nat) world" where
  "quiet_body v self w = (Inr (), self, w)"

definition raising_body ::
  "nat option \<Rightarrow> (string, string, nat) conn \<Rightarrow> (string, string, nat, nat) world \<Rightarrow>
     (string exn + unit) \<times> (string, string, nat) conn \<times> (string, string, nat, nat) world" where
  "raising_body v self w = (Inl (Raised ''ValueError''), self, w)"

text \<open>
  Two bodies that reach the instance: \<^verbatim>\<open>self.blob_service_client = None\<close>, and a
  second \<^verbatim>\<open>with self: pass\<close> nested in the first.
\<close>

definition clearing_body ::
  "nat option \<Rightarrow> (string, string, nat) conn \<Rightarrow> (string, string, nat, nat) world \<Rightarrow>
     (string exn + unit) \<times> (string, string, nat) conn \<times> (string, string, nat, nat) world" where
  "clearing_body v self w = (Inr (), self\<lparr>blob_service_client := None\<rparr>, w)"

definition nested_body ::
  "nat option \<Rightarrow> (string, string, nat) conn \<Rightarrow> (string, string, nat, nat) world \<Rightarrow>
     (string exn + unit) \<times> (string, string, nat) conn \<times> (string, string, nat, nat) world" where
  "nested_body v self w =
     (case with_stmt mock_sdk self quiet_body w of
        (Inl e, self', w') \<Rightarrow> (Inl e, self', w')
      | (Inr _, self', w') \<Rightarrow> (Inr (), self', w'))"

section \<open>Properties\<close>

subsection \<open>Helper facts\<close>

lemma close_calls_append [simp]: "close_calls (xs @ ys) = close_calls xs @ close_calls ys"
  by (induction xs rule: close_calls.induct) simp_all

lemma construct_calls_append [simp]:
  "construct_calls (xs @ ys) = construct_calls xs @ construct_calls ys"
  by (induction xs rule: construct_calls.induct) simp_all

lemma printed_append [simp]: "printed (xs @ ys) = printed xs @ printed ys"
  by (induction xs rule: printed.induct) simp_all

lemma exit_self: "fst (snd (exit sdk self exc w)) = self"
  by (simp add: exit_def Let_def split: option.splits prod.splits)

lemma enter_ok:
  "sdk_BlobServiceClient sdk (storage_url self) (credential self) (sdk_state w) = (Inr h, st) \<Longrightarrow>
   enter sdk self w =
     (Inr (Some h), self\<lparr>blob_service_client := Some h\<rparr>,
      \<lparr>trace = trace w @ [SdkConstruct (storage_url self) (credential self), Print ''open connection''],
       sdk_state = st\<rparr>)"
  by (simp add: enter_def emit_def Let_def)

lemma enter_fail:
  "sdk_BlobServiceClient sdk (storage_url self) (credential self) (sdk_state w) = (Inl e, st) \<Longrightarrow>
   enter sdk self w =
     (Inl (Raised e), self,
      \<lparr>trace = trace w @ [SdkConstruct (storage_url self) (credential self)], sdk_state = st\<rparr>)"
  by (simp add: enter_def emit_def Let_def)

lemma exit_none:
  "blob_service_client self = None \<Longrightarrow> exit sdk self exc w = (Inl (AttributeError ''close''), self, w)"
  by (simp add: exit_def)

lemma exit_ok:
  "blob_service_client self = Some h \<Longrightarrow> sdk_close sdk h (sdk_state w) = (None, st) \<Longrightarrow>
   exit sdk self exc w =
     (Inr PyNone, self, \<lparr>trace = trace w @ [SdkClose h, Print ''close connection''], sdk_state = st\<rparr>)"
  by (simp add: exit_def emit_def Let_def)

lemma exit_fail:
  "blob_service_client self = Some h \<Longrightarrow> sdk_close sdk h (sdk_state w) = (Some e, st) \<Longrightarrow>
   exit sdk self exc w =
     (Inl (Raised e), self, \<lparr>trace = trace w @ [SdkClose h], sdk_state = st\<rparr>)"
  by (simp add: exit_def emit_def Let_def)

lemma enter_cases:
  "enter sdk self w = (Inr v, self1, w1) \<Longrightarrow>
   \<exists>h st. sdk_BlobServiceClient sdk (storage_url self) (credential self) (sdk_state w) = (Inr h, st)
     \<and> v = Some h \<and> self1 = self\<lparr>blob_service_client := Some h\<rparr>
     \<and> w1 = \<lparr>trace = trace w @ [SdkConstruct (storage_url self) (credential self), Print ''open connection''],
       sdk_state = st\<rparr>"
  by (auto simp add: enter_def emit_def Let_def split: sum.splits prod.splits)

lemma enter_construct_calls:
  "construct_calls (trace (snd (snd (enter sdk self w)))) =
     construct_calls (trace w) @ [(storage_url self, credential self)]"
  by (simp add: enter_def emit_def Let_def split: sum.splits prod.splits)

lemma exit_close_calls:
  "blob_service_client self = Some h \<Longrightarrow>
   close_calls (trace (snd (snd (exit sdk self exc w)))) = close_calls (trace w) @ [h]"
  by (simp add: exit_def emit_def Let_def split: option.splits prod.splits)

lemma step_frame:
  "\<exists>c. fst (step sdk x sw) = (fst sw)\<lparr>blob_service_client := c\<rparr>"
proof (cases sw)
  case (Pair self w)
  show ?thesis
  proof (cases x)
    case Enter
    have "fst (snd (enter sdk self w)) = self\<lparr>blob_service_client := blob_service_client (fst (snd (enter sdk self w)))\<rparr>"
      by (simp add: enter_def Let_def split: sum.splits prod.splits)
    with Enter Pair show ?thesis by (metis fst_conv step.simps(1))
  next
    case (Exit exc)
    have "self = self\<lparr>blob_service_client := blob_service_client self\<rparr>" by simp
    with Exit Pair show ?thesis by (metis exit_self fst_conv step.simps(2))
  next
    case (Between f)
    have "self = self\<lparr>blob_service_client := blob_service_client self\<rparr>" by simp
    with Between Pair show ?thesis by (metis fst_conv step.simps(3))
  qed
qed

lemma run_calls_frame:
  "\<exists>c. fst (run_calls sdk cs sw) = (fst sw)\<lparr>blob_service_client := c\<rparr>"
proof (induction cs arbitrary: sw)
  case Nil
  have "fst sw = (fst sw)\<lparr>blob_service_client := blob_service_client (fst sw)\<rparr>" by simp
  then show ?case by (metis run_calls.simps(1))
next
  case (Cons x cs)
  obtain c1 where c1: "fst (step sdk x sw) = (fst sw)\<lparr>blob_service_client := c1\<rparr>"
    using step_frame by blast
  obtain c2 where c2: "fst (run_calls sdk cs (step sdk x sw)) = (fst (step sdk x sw))\<lparr>blob_service_client := c2\<rparr>"
    using Cons.IH by blast
  have "fst (run_calls sdk (x # cs) sw) = (fst sw)\<lparr>blob_service_client := c2\<rparr>"
    using c1 c2 by simp
  then show ?case by blast
qed

text \<open>
  Once \<open>__enter__\<close> has returned and the body has ended, the \<open>with\<close> statement is one
  call of \<open>__exit__\<close> on the instance and world the body left; \<open>__exit__\<close> returns only
  \<open>None\<close>, so the outcome of the body stands unless \<open>__exit__\<close> raises.
\<close>

lemma with_stmt_after_body:
  assumes "enter sdk self w = (Inr v, self1, w1)" and "body v self1 w1 = (r, self2, w2)"
  shows "with_stmt sdk self body w =
     (case exit sdk self2 (case r of Inl e \<Rightarrow> Some e | Inr x \<Rightarrow> None) w2 of
        (Inl e', sw3) \<Rightarrow> (Inl e', sw3)
      | (Inr ret, sw3) \<Rightarrow> (case r of Inl e \<Rightarrow> Inl e | Inr x \<Rightarrow> Inr (Some x), sw3))"
proof -
  have ret: "ret = PyNone" if "exit sdk self2 exc w2 = (Inr ret, sw3)" for exc ret sw3
    using that by (auto simp add: exit_def Let_def split: option.splits prod.splits)
  show ?thesis
  proof (cases r)
    case (Inl e)
    show ?thesis
    proof (cases "exit sdk self2 (Some e) w2")
      case (fields res self3 w3)
      then show ?thesis
        using assms Inl ret [of "Some e"]
        by (cases res) (auto simp add: with_stmt_def)
    qed
  next
    case (Inr x)
    show ?thesis
    proof (cases "exit sdk self2 None w2")
      case (fields res self3 w3)
      then show ?thesis
        using assms Inr by (cases res) (simp_all add: with_stmt_def)
    qed
  qed
qed

text \<open>The doubles and the scenarios, evaluated.\<close>

lemma mock_new_ok: "sdk_BlobServiceClient mock_sdk u ''validkey'' n = (Inr n, Suc n)"
  by (simp add: mock_sdk_def)

lemma mock_new_bad: "cred \<noteq> ''validkey'' \<Longrightarrow>
  sdk_BlobServiceClient mock_sdk u cred n = (Inl ''AuthenticationError'', n)"
  by (simp add: mock_sdk_def)

lemma failing_new_ok: "sdk_BlobServiceClient failing_close_sdk u ''validkey'' n = (Inr n, Suc n)"
  by (simp add: failing_close_sdk_def mock_sdk_def)

lemma mock_close: "sdk_close mock_sdk h n = (None, n)"
  by (simp add: mock_sdk_def)

lemma failing_close: "sdk_close failing_close_sdk h n = (Some ''OSError'', n)"
  by (simp add: failing_close_sdk_def)

lemma c0_fields:
  "storage_url c0 = ''https://acct.blob.example''" "credential c0 = ''validkey''"
  "blob_service_client c0 = None"
  by (simp_all add: c0_def init_def)

lemma c_bad_fields:
  "storage_url c_bad = ''https://acct.blob.example''" "credential c_bad = ''expiredkey''"
  "blob_service_client c_bad = None"
  by (simp_all add: c_bad_def init_def)

lemma w0_fields: "trace w0 = []" "sdk_state w0 = 0"
  by (simp_all add: w0_def)

lemma enter_mock_c0:
  "enter mock_sdk c0 w0 =
     (Inr (Some 0), c0\<lparr>blob_service_client := Some 0\<rparr>,
      \<lparr>trace = [SdkConstruct ''https://acct.blob.example'' ''validkey'', Print ''open connection''],
       sdk_state = Suc 0\<rparr>)"
  using enter_ok [of mock_sdk c0 w0 0 "Suc 0"] by (simp add: mock_new_ok c0_fields w0_fields)

lemma enter_failing_c0:
  "enter failing_close_sdk c0 w0 =
     (Inr (Some 0), c0\<lparr>blob_service_client := Some 0\<rparr>,
      \<lparr>trace = [SdkConstruct ''https://acct.blob.example'' ''validkey'', Print ''open connection''],
       sdk_state = Suc 0\<rparr>)"
  using enter_ok [of failing_close_sdk c0 w0 0 "Suc 0"]
  by (simp add: failing_new_ok c0_fields w0_fields)

subsection \<open>Construction\<close>

text \<open>
  C7. Construction takes the endpoint and the credential, stores both unchanged, leaves
  the client attribute \<open>None\<close>, and has no effect on the world: the trace gains no event
  (no SDK constructor call, nothing printed) and the SDK state is the one before.
\<close>

theorem init_stores_and_is_silent:
  "storage_url (fst (init url cred w)) = url
   \<and> credential (fst (init url cred w)) = cred
   \<and> blob_service_client (fst (init url cred w)) = None
   \<and> snd (init url cred w) = w
   \<and> construct_calls (trace (snd (init url cred w))) = construct_calls (trace w)"
  by (simp add: init_def)

subsection \<open>Entering\<close>

text \<open>
  C5. \<open>__enter__\<close> calls the SDK constructor once, with exactly the stored
  \<open>storage_url\<close> and \<open>credential\<close>; whatever client the constructor returns is
  both stored in \<open>blob_service_client\<close> and returned to the caller, so the returned
  and the stored handle are the same.
\<close>

theorem enter_returns_stored_client:
  "construct_calls (trace (snd (snd (enter sdk self w)))) =
     construct_calls (trace w) @ [(storage_url self, credential self)]
   \<and> (\<forall>h st. sdk_BlobServiceClient sdk (storage_url self) (credential self) (sdk_state w) = (Inr h, st)
        \<longrightarrow> fst (enter sdk self w) = Inr (Some h)
          \<and> blob_service_client (fst (snd (enter sdk self w))) = Some h)"
  by (simp add: enter_construct_calls enter_ok)

text \<open>
  C5, at the valid instance with the recording double: the constructor is called with
  the URL and key given at construction, and client \<open>0\<close> is returned and stored.
\<close>

theorem enter_returns_stored_client_witness:
  "sdk_BlobServiceClient mock_sdk (storage_url c0) (credential c0) (sdk_state w0) = (Inr 0, 1)
   \<and> fst (enter mock_sdk c0 w0) = Inr (Some 0)
   \<and> blob_service_client (fst (snd (enter mock_sdk c0 w0))) = Some 0
   \<and> construct_calls (trace (snd (snd (enter mock_sdk c0 w0)))) =
       [(''https://acct.blob.example'', ''validkey'')]"
proof -
  have h: "sdk_BlobServiceClient mock_sdk (storage_url c0) (credential c0) (sdk_state w0) = (Inr 0, 1)"
    by (simp add: mock_sdk_def c0_def init_def w0_def)
  have u: "storage_url c0 = ''https://acct.blob.example''" "credential c0 = ''validkey''" "trace w0 = []"
    by (simp_all add: c0_def init_def w0_def)
  show ?thesis
    using h u enter_returns_stored_client [of mock_sdk c0 w0] by simp
qed

text \<open>
  C6. When the SDK constructor raises, \<open>__enter__\<close> raises the same exception, after
  that single constructor call (nothing is retried, and \<open>print\<close> is not reached); the
  instance is unchanged, so no client is stored: a client attribute that was \<open>None\<close>
  is still \<open>None\<close>, and \<open>__exit__\<close> on that instance raises instead of doing
  nothing, leaving the world as it was.
\<close>

theorem enter_failure_propagates:
  assumes "sdk_BlobServiceClient sdk (storage_url self) (credential self) (sdk_state w) = (Inl e, st)"
  shows "fst (enter sdk self w) = Inl (Raised e)
     \<and> fst (snd (enter sdk self w)) = self
     \<and> trace (snd (snd (enter sdk self w))) = trace w @ [SdkConstruct (storage_url self) (credential self)]
     \<and> (blob_service_client self = None \<longrightarrow>
          blob_service_client (fst (snd (enter sdk self w))) = None
          \<and> fst (exit sdk (fst (snd (enter sdk self w))) exc w') = Inl (AttributeError ''close'')
          \<and> snd (snd (exit sdk (fst (snd (enter sdk self w))) exc w')) = w')"
  using enter_fail [OF assms] by (simp add: exit_none)

text \<open>
  C6, at an instance built with a key the double rejects: \<open>__enter__\<close> raises
  \<open>AuthenticationError\<close>, one constructor call is recorded, nothing is printed, the
  client is still \<open>None\<close>, and \<open>__exit__\<close> afterwards raises.
\<close>

theorem enter_failure_propagates_witness:
  "sdk_BlobServiceClient mock_sdk (storage_url c_bad) (credential c_bad) (sdk_state w0)
     = (Inl ''AuthenticationError'', 0)
   \<and> blob_service_client c_bad = None
   \<and> fst (enter mock_sdk c_bad w0) = Inl (Raised ''AuthenticationError'')
   \<and> blob_service_client (fst (snd (enter mock_sdk c_bad w0))) = None
   \<and> construct_calls (trace (snd (snd (enter mock_sdk c_bad w0)))) =
        [(''https://acct.blob.example'', ''expiredkey'')]
   \<and> printed (trace (snd (snd (enter mock_sdk c_bad w0)))) = []
   \<and> fst (exit mock_sdk (fst (snd (enter mock_sdk c_bad w0))) None (snd (snd (enter mock_sdk c_bad w0))))
       = Inl (AttributeError ''close'')"
proof -
  have a: "sdk_BlobServiceClient mock_sdk (storage_url c_bad) (credential c_bad) (sdk_state w0)
     = (Inl ''AuthenticationError'', 0)"
    by (simp add: mock_new_bad c_bad_fields w0_fields)
  have b: "blob_service_client c_bad = None"
    by (simp add: c_bad_fields)
  note r = enter_failure_propagates
    [OF a, where exc = None and w' = "snd (snd (enter mock_sdk c_bad w0))"]
  have r1: "fst (enter mock_sdk c_bad w0) = Inl (Raised ''AuthenticationError'')"
    using r by blast
  have r2: "trace (snd (snd (enter mock_sdk c_bad w0))) =
      [SdkConstruct ''https://acct.blob.example'' ''expiredkey'']"
    using r by (simp add: c_bad_fields w0_fields)
  have r3: "blob_service_client (fst (snd (enter mock_sdk c_bad w0))) = None"
    using r b by blast
  have r4: "fst (exit mock_sdk (fst (snd (enter mock_sdk c_bad w0))) None
      (snd (snd (enter mock_sdk c_bad w0)))) = Inl (AttributeError ''close'')"
    using r b by blast
  show ?thesis
    using a b r1 r3 r4 by (simp add: r2)
qed

text \<open>
  C10. \<open>__enter__\<close> on an instance that already holds a client \<open>h_old\<close> does not look
  at it: the client the constructor returns now replaces it and is returned, and the
  only events are the constructor call and the \<open>print\<close>. No \<open>close\<close> call is made, on
  \<open>h_old\<close> or on anything else.
\<close>

theorem second_enter_overwrites_without_close:
  assumes "blob_service_client self = Some h_old"
    and "sdk_BlobServiceClient sdk (storage_url self) (credential self) (sdk_state w) = (Inr h_new, st)"
  shows "fst (enter sdk self w) = Inr (Some h_new)
     \<and> blob_service_client (fst (snd (enter sdk self w))) = Some h_new
     \<and> trace (snd (snd (enter sdk self w))) =
         trace w @ [SdkConstruct (storage_url self) (credential self), Print ''open connection'']
     \<and> close_calls (trace (snd (snd (enter sdk self w)))) = close_calls (trace w)"
  using enter_ok [OF assms(2)] by simp

text \<open>
  C10, entering the valid instance twice with the recording double: the first client is
  \<open>0\<close>, the second \<open>__enter__\<close> stores and returns client \<open>1\<close>, and no \<open>close\<close> call
  is on the trace.
\<close>

theorem second_enter_overwrites_without_close_witness:
  "blob_service_client (fst (entered mock_sdk)) = Some 0
   \<and> sdk_BlobServiceClient mock_sdk (storage_url (fst (entered mock_sdk)))
        (credential (fst (entered mock_sdk))) (sdk_state (snd (entered mock_sdk))) = (Inr 1, 2)
   \<and> fst (enter mock_sdk (fst (entered mock_sdk)) (snd (entered mock_sdk))) = Inr (Some 1)
   \<and> blob_service_client (fst (snd (enter mock_sdk (fst (entered mock_sdk)) (snd (entered mock_sdk)))))
       = Some 1
   \<and> close_calls (trace (snd (snd (enter mock_sdk (fst (entered mock_sdk)) (snd (entered mock_sdk)))))) = []"
proof -
  have a: "blob_service_client (fst (entered mock_sdk)) = Some 0"
    by (simp add: entered_def enter_mock_c0)
  have b: "sdk_BlobServiceClient mock_sdk (storage_url (fst (entered mock_sdk)))
        (credential (fst (entered mock_sdk))) (sdk_state (snd (entered mock_sdk))) = (Inr 1, 2)"
    by (simp add: entered_def enter_mock_c0 c0_fields mock_new_ok)
  have t: "close_calls (trace (snd (entered mock_sdk))) = []"
    by (simp add: entered_def enter_mock_c0)
  show ?thesis
    using second_enter_overwrites_without_close [OF a b] a b t by simp
qed

subsection \<open>Exiting\<close>

text \<open>
  C3. \<open>__exit__\<close> on an instance whose client attribute is \<open>None\<close> raises: the lookup
  \<open>None.close\<close> fails with \<open>AttributeError\<close>, the illegal-state condition of this
  code. It does not return, and it leaves the instance and the world untouched (no
  \<open>close\<close> call, nothing printed).
\<close>

theorem exit_without_client_raises:
  "blob_service_client self = None \<Longrightarrow>
   exit sdk self exc w = (Inl (AttributeError ''close''), self, w)"
  by (rule exit_none)

text \<open>
  C3, at a freshly constructed instance.
\<close>

theorem exit_without_client_raises_witness:
  "blob_service_client c0 = None
   \<and> exit mock_sdk c0 None w0 = (Inl (AttributeError ''close''), c0, w0)"
  using exit_without_client_raises [of c0 mock_sdk None w0] by (simp add: c0_def init_def)

text \<open>
  C4 as stated fails. With an SDK whose \<open>close\<close> raises \<open>OSError\<close>, \<open>__exit__\<close> after a
  successful \<open>__enter__\<close> raises \<open>OSError\<close> and the line \<open>close connection\<close> is never
  printed: the only line on the trace is \<open>open connection\<close>.
\<close>

theorem close_error_skips_log_counterexample:
  "blob_service_client (fst (entered failing_close_sdk)) = Some 0
   \<and> fst (exit failing_close_sdk (fst (entered failing_close_sdk)) None (snd (entered failing_close_sdk)))
       = Inl (Raised ''OSError'')
   \<and> printed (trace (snd (exited failing_close_sdk))) = [''open connection'']
   \<and> ''close connection'' \<notin> set (printed (trace (snd (exited failing_close_sdk))))"
  by (simp add: exited_def entered_def enter_failing_c0 exit_def emit_def failing_close)

text \<open>
  C4, amended. When the stored client's \<open>close\<close> raises during \<open>__exit__\<close>, that
  exception is not suppressed: \<open>__exit__\<close> raises it. The \<open>close\<close> call is the only
  event; the \<open>print\<close> that follows it in the method is not reached, so no close line
  is logged.
\<close>

theorem close_error_propagates_unlogged:
  assumes "blob_service_client self = Some h" and "sdk_close sdk h (sdk_state w) = (Some e, st)"
  shows "fst (exit sdk self exc w) = Inl (Raised e)
     \<and> trace (snd (snd (exit sdk self exc w))) = trace w @ [SdkClose h]
     \<and> printed (trace (snd (snd (exit sdk self exc w)))) = printed (trace w)"
  using exit_fail [OF assms] by simp

text \<open>
  C4 amended, at the instance entered with the double whose \<open>close\<close> raises.
\<close>

theorem close_error_propagates_unlogged_witness:
  "blob_service_client (fst (entered failing_close_sdk)) = Some 0
   \<and> sdk_close failing_close_sdk 0 (sdk_state (snd (entered failing_close_sdk))) = (Some ''OSError'', 1)
   \<and> fst (exit failing_close_sdk (fst (entered failing_close_sdk)) None (snd (entered failing_close_sdk)))
       = Inl (Raised ''OSError'')
   \<and> printed (trace (snd (snd (exit failing_close_sdk (fst (entered failing_close_sdk)) None
         (snd (entered failing_close_sdk)))))) = [''open connection'']"
proof -
  have a: "blob_service_client (fst (entered failing_close_sdk)) = Some 0"
    by (simp add: entered_def enter_failing_c0)
  have b: "sdk_close failing_close_sdk 0 (sdk_state (snd (entered failing_close_sdk))) = (Some ''OSError'', 1)"
    by (simp add: entered_def enter_failing_c0 failing_close)
  have t: "printed (trace (snd (entered failing_close_sdk))) = [''open connection'']"
    by (simp add: entered_def enter_failing_c0)
  show ?thesis
    using close_error_propagates_unlogged [OF a b, of None] a b t by simp
qed

subsection \<open>The lifetime of the client attribute\<close>

text \<open>
  C2 as stated fails. With the recording double, after \<open>__enter__\<close> and \<open>__exit__\<close> the
  client attribute still holds client \<open>0\<close>, and a second \<open>__exit__\<close> does not fail: it
  returns \<open>None\<close> after closing client \<open>0\<close> a second time.
\<close>

theorem client_kept_after_exit_counterexample:
  "fst (enter mock_sdk c0 w0) = Inr (Some 0)
   \<and> fst (exit mock_sdk (fst (entered mock_sdk)) None (snd (entered mock_sdk))) = Inr PyNone
   \<and> blob_service_client (fst (exited mock_sdk)) = Some 0
   \<and> blob_service_client (fst (exited mock_sdk)) \<noteq> None
   \<and> fst (exit mock_sdk (fst (exited mock_sdk)) None (snd (exited mock_sdk))) = Inr PyNone
   \<and> close_calls (trace (snd (snd (exit mock_sdk (fst (exited mock_sdk)) None (snd (exited mock_sdk)))))) = [0, 0]"
  by (simp add: exited_def entered_def enter_mock_c0 exit_def emit_def mock_close)

text \<open>
  C2, amended. The client attribute is \<open>None\<close> after construction and holds the
  returned client after a successful \<open>__enter__\<close>. \<open>__exit__\<close> does not clear it: after
  \<open>__exit__\<close>, however it ended, the attribute holds the same client, so a second
  \<open>__exit__\<close> without re-entering does not raise \<open>AttributeError\<close> for a missing
  client but calls \<open>close\<close> on that same client again.
\<close>

theorem client_lifetime:
  assumes "enter sdk (fst (init url cred w)) w' = (Inr v, self1, w1)"
  shows "blob_service_client (fst (init url cred w)) = None
     \<and> (\<exists>h. v = Some h \<and> blob_service_client self1 = Some h
          \<and> blob_service_client (fst (snd (exit sdk self1 exc w2))) = Some h
          \<and> fst (exit sdk (fst (snd (exit sdk self1 exc w2))) exc' w3) \<noteq> Inl (AttributeError ''close'')
          \<and> close_calls (trace (snd (snd (exit sdk (fst (snd (exit sdk self1 exc w2))) exc' w3)))) =
              close_calls (trace w3) @ [h])"
proof -
  obtain h where v: "v = Some h" and stored: "blob_service_client self1 = Some h"
    using enter_cases [OF assms] by force
  have kept: "fst (snd (exit sdk self1 exc w2)) = self1" by (rule exit_self)
  have again: "fst (exit sdk self1 exc' w3) \<noteq> Inl (AttributeError ''close'')"
    using stored by (simp add: exit_def Let_def split: prod.splits option.splits)
  show ?thesis
    using v stored kept again exit_close_calls [OF stored] by (simp add: init_def)
qed

text \<open>
  C2 amended, at the valid instance with the recording double.
\<close>

theorem client_lifetime_witness:
  "enter mock_sdk (fst (init ''https://acct.blob.example'' ''validkey'' w0)) w0
     = (Inr (Some 0), fst (entered mock_sdk), snd (entered mock_sdk))
   \<and> blob_service_client (fst (init ''https://acct.blob.example'' ''validkey'' w0) :: (string, string, nat) conn) = None
   \<and> blob_service_client (fst (entered mock_sdk)) = Some 0
   \<and> blob_service_client (fst (snd (exit mock_sdk (fst (entered mock_sdk)) None (snd (entered mock_sdk))))) = Some 0"
proof -
  have e: "enter mock_sdk (fst (init ''https://acct.blob.example'' ''validkey'' w0)) w0
     = (Inr (Some 0), fst (entered mock_sdk), snd (entered mock_sdk))"
    using enter_mock_c0 by (simp add: entered_def c0_def)
  show ?thesis
    using client_lifetime [OF e, where exc = None and ?w2.0 = "snd (entered mock_sdk)"] e by simp
qed

text \<open>
  C9. Over every sequence of \<open>__enter__\<close> and \<open>__exit__\<close> calls, whatever they return or
  raise and whatever happens to the world in between, the instance differs from the
  one the sequence started with in the client attribute only: \<open>storage_url\<close> and
  \<open>credential\<close> keep their values, which for a constructed instance are the arguments
  of the constructor.
\<close>

theorem run_calls_keeps_endpoint_and_credential:
  "storage_url (fst (run_calls sdk cs (self, w))) = storage_url self
   \<and> credential (fst (run_calls sdk cs (self, w))) = credential self
   \<and> fst (run_calls sdk cs (self, w)) =
       self\<lparr>blob_service_client := blob_service_client (fst (run_calls sdk cs (self, w)))\<rparr>
   \<and> storage_url (fst (run_calls sdk cs (init url cred w))) = url
   \<and> credential (fst (run_calls sdk cs (init url cred w))) = cred"
proof -
  obtain c where c: "fst (run_calls sdk cs (self, w)) = self\<lparr>blob_service_client := c\<rparr>"
    using run_calls_frame [of sdk cs "(self, w)"] by auto
  obtain c' where c': "fst (run_calls sdk cs (init url cred w)) =
      \<lparr>storage_url = url, credential = cred, blob_service_client = c'\<rparr>"
    using run_calls_frame [of sdk cs "init url cred w"] by (auto simp add: init_def)
  show ?thesis
    by (simp add: c c')
qed

subsection \<open>The scope as a whole\<close>

text \<open>
  C1 as stated fails, in two ways. With an SDK whose \<open>close\<close> raises \<open>OSError\<close>,
  \<open>__enter__\<close> succeeds, the body raises \<open>ValueError\<close>, and the \<open>with\<close> statement raises
  \<open>OSError\<close>: the exception of the body does not reach the caller. With the recording
  double and a body that sets \<open>self.blob_service_client\<close> to \<open>None\<close>, \<open>__enter__\<close>
  succeeds, \<open>__exit__\<close> raises \<open>AttributeError\<close>, and no \<open>close\<close> call is made at all.
\<close>

theorem body_exception_replaced_counterexample:
  "fst (enter failing_close_sdk c0 w0) = Inr (Some 0)
   \<and> fst (raising_body (Some 0) (fst (snd (enter failing_close_sdk c0 w0)))
           (snd (snd (enter failing_close_sdk c0 w0)))) = Inl (Raised ''ValueError'')
   \<and> fst (with_stmt failing_close_sdk c0 raising_body w0) = Inl (Raised ''OSError'')
   \<and> fst (with_stmt failing_close_sdk c0 raising_body w0) \<noteq> Inl (Raised ''ValueError'')
   \<and> fst (enter mock_sdk c0 w0) = Inr (Some 0)
   \<and> fst (with_stmt mock_sdk c0 clearing_body w0) = Inl (AttributeError ''close'')
   \<and> close_calls (trace (snd (snd (with_stmt mock_sdk c0 clearing_body w0)))) = []"
  by (simp add: with_stmt_def enter_failing_c0 enter_mock_c0 raising_body_def clearing_body_def
      exit_def emit_def failing_close)

text \<open>
  C1, amended. In every \<open>with\<close> statement whose \<open>__enter__\<close> succeeded, whatever the
  body does to the instance and the world and whether it returns or raises, \<open>__exit__\<close>
  runs once, on the instance as the body left it. It makes exactly one \<open>close\<close> call,
  on the client the instance holds at that moment, which is the client \<open>__enter__\<close>
  stored and returned whenever the body has not assigned the attribute; when the body
  has cleared the attribute, \<open>__exit__\<close> raises \<open>AttributeError\<close> and makes no \<open>close\<close>
  call. \<open>__exit__\<close> returns \<open>None\<close>, so it never swallows an exception: when it
  returns, an exception of the body is re-raised to the caller (and a result of the
  body is handed on); when \<open>__exit__\<close> itself raises, from \<open>close\<close> or from the missing
  client, it is that exception that reaches the caller.
\<close>

theorem with_stmt_exit_runs_once:
  assumes "enter sdk self w = (Inr v, self1, w1)" and "body v self1 w1 = (r, self2, w2)"
  shows "(\<exists>h. v = Some h \<and> blob_service_client self1 = Some h)
     \<and> snd (with_stmt sdk self body w) =
         snd (exit sdk self2 (case r of Inl e \<Rightarrow> Some e | Inr x \<Rightarrow> None) w2)
     \<and> close_calls (trace (snd (snd (with_stmt sdk self body w)))) =
         close_calls (trace w2) @ (case blob_service_client self2 of None \<Rightarrow> [] | Some h' \<Rightarrow> [h'])
     \<and> (blob_service_client self2 = blob_service_client self1 \<longrightarrow>
          blob_service_client self2 = v
          \<and> (\<exists>h. v = Some h
               \<and> close_calls (trace (snd (snd (with_stmt sdk self body w)))) = close_calls (trace w2) @ [h]))
     \<and> (case blob_service_client self2 of
          None \<Rightarrow>
            fst (with_stmt sdk self body w) = Inl (AttributeError ''close'')
            \<and> trace (snd (snd (with_stmt sdk self body w))) = trace w2
        | Some h' \<Rightarrow>
            (case fst (sdk_close sdk h' (sdk_state w2)) of
               None \<Rightarrow>
                 fst (with_stmt sdk self body w) = (case r of Inl e \<Rightarrow> Inl e | Inr x \<Rightarrow> Inr (Some x))
                 \<and> trace (snd (snd (with_stmt sdk self body w))) =
                     trace w2 @ [SdkClose h', Print ''close connection'']
             | Some e' \<Rightarrow>
                 fst (with_stmt sdk self body w) = Inl (Raised e')
                 \<and> trace (snd (snd (with_stmt sdk self body w))) = trace w2 @ [SdkClose h']))"
proof -
  let ?exc = "case r of Inl e \<Rightarrow> Some e | Inr x \<Rightarrow> None"
  obtain h where v: "v = Some h" and stored: "blob_service_client self1 = Some h"
    using enter_cases [OF assms(1)] by force
  note run = with_stmt_after_body [where body = body, OF assms]
  show ?thesis
  proof (cases "blob_service_client self2")
    case None
    have ex: "exit sdk self2 ?exc w2 = (Inl (AttributeError ''close''), self2, w2)"
      using None by (rule exit_none)
    show ?thesis
      using v stored None by (simp add: run ex)
  next
    case (Some h')
    obtain cr st3 where cl: "sdk_close sdk h' (sdk_state w2) = (cr, st3)"
      by (cases "sdk_close sdk h' (sdk_state w2)")
    show ?thesis
    proof (cases cr)
      case None
      have ex: "exit sdk self2 ?exc w2 =
          (Inr PyNone, self2, \<lparr>trace = trace w2 @ [SdkClose h', Print ''close connection''], sdk_state = st3\<rparr>)"
        using exit_ok [OF Some] cl None by simp
      show ?thesis
        using v stored Some cl None by (auto simp add: run ex)
    next
      case (Some e')
      have ex: "exit sdk self2 ?exc w2 =
          (Inl (Raised e'), self2, \<lparr>trace = trace w2 @ [SdkClose h'], sdk_state = st3\<rparr>)"
        using exit_fail [OF \<open>blob_service_client self2 = Some h'\<close>] cl Some by simp
      show ?thesis
        using v stored \<open>blob_service_client self2 = Some h'\<close> cl Some by (auto simp add: run ex)
    qed
  qed
qed

text \<open>
  C1 amended, at the valid instance with the recording double and a body that raises
  \<open>ValueError\<close>: the \<open>ValueError\<close> reaches the caller and client \<open>0\<close> is closed once.
\<close>

theorem with_stmt_exit_runs_once_witness:
  "enter mock_sdk c0 w0 = (Inr (Some 0), fst (entered mock_sdk), snd (entered mock_sdk))
   \<and> raising_body (Some 0) (fst (entered mock_sdk)) (snd (entered mock_sdk)) =
       (Inl (Raised ''ValueError''), fst (entered mock_sdk), snd (entered mock_sdk))
   \<and> fst (with_stmt mock_sdk c0 raising_body w0) = Inl (Raised ''ValueError'')
   \<and> close_calls (trace (snd (snd (with_stmt mock_sdk c0 raising_body w0)))) = [0]"
proof -
  have e: "enter mock_sdk c0 w0 = (Inr (Some 0), fst (entered mock_sdk), snd (entered mock_sdk))"
    by (simp add: entered_def enter_mock_c0)
  have b: "raising_body (Some 0) (fst (entered mock_sdk)) (snd (entered mock_sdk)) =
       (Inl (Raised ''ValueError''), fst (entered mock_sdk), snd (entered mock_sdk))"
    by (simp add: raising_body_def)
  have s: "blob_service_client (fst (entered mock_sdk)) = Some 0"
    by (simp add: entered_def enter_mock_c0)
  have t: "close_calls (trace (snd (entered mock_sdk))) = []"
    by (simp add: entered_def enter_mock_c0)
  note r = with_stmt_exit_runs_once [where body = raising_body, OF e b]
  have r1: "close_calls (trace (snd (snd (with_stmt mock_sdk c0 raising_body w0)))) =
      close_calls (trace (snd (entered mock_sdk))) @
        (case blob_service_client (fst (entered mock_sdk)) of None \<Rightarrow> [] | Some h' \<Rightarrow> [h'])"
    using r by blast
  have r2: "case blob_service_client (fst (entered mock_sdk)) of
          None \<Rightarrow>
            fst (with_stmt mock_sdk c0 raising_body w0) = Inl (AttributeError ''close'')
            \<and> trace (snd (snd (with_stmt mock_sdk c0 raising_body w0))) = trace (snd (entered mock_sdk))
        | Some h' \<Rightarrow>
            (case fst (sdk_close mock_sdk h' (sdk_state (snd (entered mock_sdk)))) of
               None \<Rightarrow>
                 fst (with_stmt mock_sdk c0 raising_body w0) =
                   (case Inl (Raised ''ValueError'') of Inl e \<Rightarrow> Inl e | Inr x \<Rightarrow> Inr (Some x))
                 \<and> trace (snd (snd (with_stmt mock_sdk c0 raising_body w0))) =
                     trace (snd (entered mock_sdk)) @ [SdkClose h', Print ''close connection'']
             | Some e' \<Rightarrow>
                 fst (with_stmt mock_sdk c0 raising_body w0) = Inl (Raised e')
                 \<and> trace (snd (snd (with_stmt mock_sdk c0 raising_body w0))) =
                     trace (snd (entered mock_sdk)) @ [SdkClose h'])"
    using r by blast
  have c: "close_calls (trace (snd (snd (with_stmt mock_sdk c0 raising_body w0)))) = [0]"
    using r1 by (simp add: s t)
  have o: "fst (with_stmt mock_sdk c0 raising_body w0) = Inl (Raised ''ValueError'')"
    using r2 by (simp add: s mock_close)
  show ?thesis
    using e b c o by blast
qed

text \<open>
  A second \<open>with\<close> on the same instance, nested in the first: the inner \<open>__enter__\<close>
  replaces client \<open>0\<close> by client \<open>1\<close>, and both \<open>__exit__\<close> calls close client \<open>1\<close>.
  Client \<open>0\<close> is never closed.
\<close>

lemma nested_scope_closes_second_client_twice:
  "fst (with_stmt mock_sdk c0 nested_body w0) = Inr (Some ())
   \<and> construct_calls (trace (snd (snd (with_stmt mock_sdk c0 nested_body w0)))) =
       [(''https://acct.blob.example'', ''validkey''), (''https://acct.blob.example'', ''validkey'')]
   \<and> close_calls (trace (snd (snd (with_stmt mock_sdk c0 nested_body w0)))) = [1, 1]"
proof -
  let ?c1 = "c0\<lparr>blob_service_client := Some (0::nat)\<rparr>"
  let ?w1 = "\<lparr>trace = [SdkConstruct ''https://acct.blob.example'' ''validkey'', Print ''open connection''],
       sdk_state = Suc 0\<rparr>"
  have inner: "enter mock_sdk ?c1 ?w1 =
      (Inr (Some 1), c0\<lparr>blob_service_client := Some 1\<rparr>,
       \<lparr>trace = [SdkConstruct ''https://acct.blob.example'' ''validkey'', Print ''open connection'',
                 SdkConstruct ''https://acct.blob.example'' ''validkey'', Print ''open connection''],
        sdk_state = 2\<rparr>)"
    using enter_ok [of mock_sdk ?c1 ?w1 1 2] by (simp add: mock_new_ok c0_fields)
  show ?thesis
    by (simp add: with_stmt_def enter_mock_c0 nested_body_def inner quiet_body_def
        exit_def emit_def mock_close)
qed

text \<open>
  C8. In a \<open>with\<close> statement where the constructor, the body and \<open>close\<close> all return,
  the wrapper emits, around the events \<open>evs\<close> of the body: the constructor call, then
  the line \<open>open connection\<close>; and at the end the \<open>close\<close> call on the client the
  instance holds when the body ends, then the line \<open>close connection\<close>. The wrapper
  prints exactly these two lines, in this order. When the body has left the instance as
  \<open>__enter__\<close> made it, the client closed is the one constructed.
\<close>

theorem successful_scope_log_order:
  assumes "sdk_BlobServiceClient sdk (storage_url self) (credential self) (sdk_state w) = (Inr h, st1)"
    and "body (Some h) (self\<lparr>blob_service_client := Some h\<rparr>)
           \<lparr>trace = trace w @ [SdkConstruct (storage_url self) (credential self), Print ''open connection''],
            sdk_state = st1\<rparr> = (Inr r, self2, w2)"
    and "trace w2 =
           (trace w @ [SdkConstruct (storage_url self) (credential self), Print ''open connection'']) @ evs"
    and "blob_service_client self2 = Some h'"
    and "sdk_close sdk h' (sdk_state w2) = (None, st3)"
  shows "fst (with_stmt sdk self body w) = Inr (Some r)
     \<and> trace (snd (snd (with_stmt sdk self body w))) =
         trace w @ [SdkConstruct (storage_url self) (credential self), Print ''open connection'']
           @ evs @ [SdkClose h', Print ''close connection'']
     \<and> printed (trace (snd (snd (with_stmt sdk self body w)))) =
         printed (trace w) @ [''open connection''] @ printed evs @ [''close connection'']
     \<and> (self2 = self\<lparr>blob_service_client := Some h\<rparr> \<longrightarrow> h' = h)"
proof -
  have ex: "exit sdk self2 None w2 =
      (Inr PyNone, self2,
       \<lparr>trace = trace w2 @ [SdkClose h', Print ''close connection''], sdk_state = st3\<rparr>)"
    using exit_ok [OF assms(4) assms(5)] .
  have run: "with_stmt sdk self body w =
      (Inr (Some r), self2,
       \<lparr>trace = trace w2 @ [SdkClose h', Print ''close connection''], sdk_state = st3\<rparr>)"
    by (simp add: with_stmt_def enter_ok [OF assms(1)] assms(2) ex)
  show ?thesis
    using assms(4) by (auto simp add: run assms(3))
qed

text \<open>
  C8, at the valid instance with the recording double and a body that does nothing:
  the lines printed are \<open>open connection\<close>, \<open>close connection\<close>.
\<close>

theorem successful_scope_log_order_witness:
  "sdk_BlobServiceClient mock_sdk (storage_url c0) (credential c0) (sdk_state w0) = (Inr 0, 1)
   \<and> sdk_close mock_sdk 0 1 = (None, 1)
   \<and> fst (with_stmt mock_sdk c0 quiet_body w0) = Inr (Some ())
   \<and> trace (snd (snd (with_stmt mock_sdk c0 quiet_body w0))) =
       [SdkConstruct ''https://acct.blob.example'' ''validkey'', Print ''open connection'',
        SdkClose 0, Print ''close connection'']
   \<and> printed (trace (snd (snd (with_stmt mock_sdk c0 quiet_body w0)))) =
       [''open connection'', ''close connection'']"
proof -
  let ?c1 = "c0\<lparr>blob_service_client := Some (0::nat)\<rparr>"
  let ?w1 = "\<lparr>trace = trace w0 @ [SdkConstruct (storage_url c0) (credential c0), Print ''open connection''],
            sdk_state = 1::nat\<rparr>"
  have a: "sdk_BlobServiceClient mock_sdk (storage_url c0) (credential c0) (sdk_state w0) = (Inr 0, 1)"
    by (simp add: mock_new_ok c0_fields w0_fields)
  have b: "quiet_body (Some 0) ?c1 ?w1 = (Inr (), ?c1, ?w1)"
    by (simp add: quiet_body_def)
  have c: "trace ?w1 =
      (trace w0 @ [SdkConstruct (storage_url c0) (credential c0), Print ''open connection'']) @ []"
    by simp
  have s: "blob_service_client ?c1 = Some 0"
    by simp
  have d: "sdk_close mock_sdk 0 (sdk_state ?w1) = (None, 1)"
    by (simp add: mock_close)
  show ?thesis
    using successful_scope_log_order [where body = quiet_body and evs = "[]", OF a b c s d] a d
    by (simp add: c0_fields w0_fields)
qed

end
